theory Spec2Isabelle
  imports Complex_Main
begin

section \<open>The octree mapper of icpslam (src/icpslam/octree\_mapper.cpp)\<close>

text \<open>
  The mapper keeps a point cloud (the map) and an octree over it, and grows the map scan
  by scan: a scan is moved into the map frame by the raw pose, its nearest neighbours in
  the map are collected, generalised ICP estimates a correction, and on convergence the
  scan is moved again by the corrected pose and added to the map, one point per voxel.

  The file never reads a coordinate of a point: every geometric operation is a call into
  PCL, pcl\_ros or tf. Points are therefore a type variable \<open>'p\<close> and voxel cells a type
  variable \<open>'k\<close>, and the library calls are the fields of a record that every operation
  takes as its first argument. Coordinates of poses are real numbers (the source uses
  doubles; rounding is not modelled).
\<close>

subsection \<open>Vectors and matrices\<close>

type_synonym Vector3 = "real \<times> real \<times> real"

text \<open>A 3x3 matrix, as its three rows.\<close>

type_synonym Matrix3 = "Vector3 \<times> Vector3 \<times> Vector3"

fun vadd :: "Vector3 \<Rightarrow> Vector3 \<Rightarrow> Vector3" where
  "vadd (a1, a2, a3) (b1, b2, b3) = (a1 + b1, a2 + b2, a3 + b3)"

fun vneg :: "Vector3 \<Rightarrow> Vector3" where
  "vneg (a1, a2, a3) = (- a1, - a2, - a3)"

fun dot :: "Vector3 \<Rightarrow> Vector3 \<Rightarrow> real" where
  "dot (a1, a2, a3) (b1, b2, b3) = a1 * b1 + a2 * b2 + a3 * b3"

fun mat_vec :: "Matrix3 \<Rightarrow> Vector3 \<Rightarrow> Vector3" where
  "mat_vec (r1, r2, r3) v = (dot r1 v, dot r2 v, dot r3 v)"

fun transpose3 :: "Matrix3 \<Rightarrow> Matrix3" where
  "transpose3 ((a11, a12, a13), (a21, a22, a23), (a31, a32, a33)) =
     ((a11, a21, a31), (a12, a22, a32), (a13, a23, a33))"

fun mat_mul :: "Matrix3 \<Rightarrow> Matrix3 \<Rightarrow> Matrix3" where
  "mat_mul (r1, r2, r3) b =
     (case transpose3 b of (c1, c2, c3) \<Rightarrow>
        ((dot r1 c1, dot r1 c2, dot r1 c3),
         (dot r2 c1, dot r2 c2, dot r2 c3),
         (dot r3 c1, dot r3 c2, dot r3 c3)))"

fun mat_add :: "Matrix3 \<Rightarrow> Matrix3 \<Rightarrow> Matrix3" where
  "mat_add (r1, r2, r3) (q1, q2, q3) = (vadd r1 q1, vadd r2 q2, vadd r3 q3)"

definition identity3 :: Matrix3 where
  "identity3 = ((1, 0, 0), (0, 1, 0), (0, 0, 1))"

subsection \<open>Poses\<close>

text \<open>
  Modelled from the spec: the class Pose6DOF (utils/pose6DOF.h of the repository, not
  under src/). The spec's data model: a rigid transform, a rotation (3x3 orthonormal) and
  a translation (3-vector). The timestamp that the spec attaches to a pose is left out:
  the spec does not say which timestamp a composed or an inverted pose carries, and the
  mapper reads none.
\<close>

record Pose6DOF =
  pos :: Vector3
  rot :: Matrix3

text \<open>
  Modelled from the spec: \<open>compose(a, b)\<close> of the Rigid Transform Utility, missing with
  utils/pose6DOF.h: ``rotations multiply, translations combine via t = a.t + a.R b.t,
  rotation R = a.R b.R''.
\<close>

definition compose :: "Pose6DOF \<Rightarrow> Pose6DOF \<Rightarrow> Pose6DOF" where
  "compose a b =
     \<lparr>pos = vadd (pos a) (mat_vec (rot a) (pos b)), rot = mat_mul (rot a) (rot b)\<rparr>"

text \<open>
  Modelled from the spec: \<open>Pose6DOF::operator+\<close>, missing with utils/pose6DOF.h. The spec
  (sections 4.1 and 9): the operator written \<open>+\<close> in the source has the semantics of
  homogeneous-transform composition.
\<close>

definition pose_plus :: "Pose6DOF \<Rightarrow> Pose6DOF \<Rightarrow> Pose6DOF" where
  "pose_plus a b = compose a b"

text \<open>
  The reading that the spec rules out, in the spec's words ``field-wise addition of pose
  components'': it is what the claim about \<open>+\<close> is compared with, and no operation of
  the mapper uses it.
\<close>

definition fieldwise_add :: "Pose6DOF \<Rightarrow> Pose6DOF \<Rightarrow> Pose6DOF" where
  "fieldwise_add a b = \<lparr>pos = vadd (pos a) (pos b), rot = mat_add (rot a) (rot b)\<rparr>"

text \<open>
  Modelled from the spec: \<open>Pose6DOF::inverse\<close>, missing with utils/pose6DOF.h: ``the
  rigid inverse (inv R, - inv R t)''; the inverse of an orthonormal rotation is its transpose.
\<close>

definition inverse_pose :: "Pose6DOF \<Rightarrow> Pose6DOF" where
  "inverse_pose a =
     \<lparr>pos = vneg (mat_vec (transpose3 (rot a)) (pos a)), rot = transpose3 (rot a)\<rparr>"

text \<open>A \<open>tf::Transform\<close>: a basis (rotation) and an origin (translation).\<close>

record tf_Transform =
  basis :: Matrix3
  origin :: Vector3

text \<open>
  Modelled from the spec: \<open>Pose6DOF::toTFTransform\<close>, missing with utils/pose6DOF.h; a
  change of representation of the same rigid transform.
\<close>

definition toTFTransform :: "Pose6DOF \<Rightarrow> tf_Transform" where
  "toTFTransform a = \<lparr>basis = rot a, origin = pos a\<rparr>"

text \<open>
  The \<open>Eigen::Matrix4d\<close> that the registration returns is a homogeneous matrix with last
  row (0, 0, 0, 1): its upper left 3x3 block and the first three entries of its last column.
\<close>

record Matrix4d =
  block3 :: Matrix3
  column4 :: Vector3

text \<open>
  Modelled from the spec: the constructor \<open>Pose6DOF(T, time)\<close>, missing with
  utils/pose6DOF.h: ``conversion from a 4x4 homogeneous matrix''.
\<close>

definition Pose6DOF_of_matrix :: "Matrix4d \<Rightarrow> Pose6DOF" where
  "Pose6DOF_of_matrix T = \<lparr>pos = column4 T, rot = block3 T\<rparr>"

subsection \<open>The libraries\<close>

text \<open>What \<open>pcl::GeneralizedIterativeClosestPoint\<close> holds after \<open>align\<close>.\<close>

record gicp_result =
  hasConverged :: bool
  getFinalTransformation :: Matrix4d

text \<open>
  The calls into PCL, pcl\_ros and tf, which are not part of the repository:
  \<^item> \<open>voxel_of\<close>: the cell of the octree's grid (of the resolution given at \<open>resetMap\<close>)
    that holds a point;
  \<^item> \<open>approxNearestSearch\<close>: the value of \<open>result_index\<close> after the call of the same name,
    given the octree's occupied cells, its input cloud and the query point;
    \<open>result_index\<close> is -1 before the call;
  \<^item> \<open>transformPoint\<close>: what \<open>pcl_ros::transformPointCloud\<close> does to each point under a
    transform, or \<open>None\<close> when it throws \<open>tf::TransformException\<close>;
  \<^item> \<open>gicp_align\<close>: the registration of a source cloud to a target cloud, with the
    settings of \<open>estimateTransformICP\<close> (ICP\_MAX\_ITERS, ICP\_EPSILON, ICP\_MAX\_CORR\_DIST,
    no RANSAC iterations).
\<close>

record ('p, 'k) pcl =
  voxel_of :: "'p \<Rightarrow> 'k"
  approxNearestSearch :: "'k set \<Rightarrow> 'p list \<Rightarrow> 'p \<Rightarrow> int"
  transformPoint :: "tf_Transform \<Rightarrow> ('p \<Rightarrow> 'p) option"
  gicp_align :: "'p list \<Rightarrow> 'p list \<Rightarrow> gicp_result"

subsection \<open>ROS: time, subscribers, messages\<close>

type_synonym ros_Time = nat

text \<open>
  What the mapper reads from ROS during one call: the number of subscribers of each of its
  four publishers, and the clock, whose successive readings are \<open>now 0\<close>, \<open>now 1\<close>, ...
\<close>

record ros_env =
  nn_cloud_subscribers :: nat
  map_cloud_subscribers :: nat
  refined_path_subscribers :: nat
  registered_cloud_subscribers :: nat
  now :: "nat \<Rightarrow> ros_Time"

text \<open>A \<open>nav_msgs::Path\<close>: its header and its poses, each with its timestamp.\<close>

record nav_Path =
  header_stamp :: ros_Time
  header_frame_id :: string
  poses :: "(Pose6DOF \<times> ros_Time) list"

datatype topic = nn_cloud_pub | map_cloud_pub | registered_cloud_pub | refined_path_pub

text \<open>A message handed to a publisher: a cloud with its frame and stamp, or the path.\<close>

datatype 'p message =
    PointCloud2 topic "'p list" string ros_Time
  | PathMsg nav_Path

subsection \<open>The mapper's state\<close>

text \<open>
  \<open>map_octree\<close> is the set of occupied cells of the octree; \<open>map_cloud\<close> is the cloud the
  octree was given by \<open>setInputCloud\<close>, which the mapper and the octree share.
  \<open>published\<close> collects the messages handed to the publishers, oldest first, and
  \<open>clock_reads\<close> counts the readings of the clock.
\<close>

record ('p, 'k) OctreeMapper =
  map_cloud :: "'p list"
  map_octree :: "'k set"
  refined_path :: nav_Path
  map_frame :: string
  robot_frame :: string
  published :: "'p message list"
  clock_reads :: nat

text \<open>The out-of-range read that \<open>approxNearestNeighbors\<close> can make.\<close>

datatype fault = IndexOutOfRange

subsection \<open>The octree (PCL)\<close>

text \<open>
  The two calls that \<open>addPointsToMap\<close> makes on the octree, after PCL's documentation:
  \<open>isVoxelOccupiedAtPoint\<close> tells whether the cell of a point holds a point already, and
  \<open>addPointToCloud\<close> appends the point to the cloud and enters it in the octree.
\<close>

definition isVoxelOccupiedAtPoint :: "('p, 'k) pcl \<Rightarrow> 'k set \<Rightarrow> 'p \<Rightarrow> bool" where
  "isVoxelOccupiedAtPoint lib octree point \<longleftrightarrow> voxel_of lib point \<in> octree"

definition addPointToCloud ::
  "('p, 'k) pcl \<Rightarrow> 'p \<Rightarrow> ('p, 'k) OctreeMapper \<Rightarrow> ('p, 'k) OctreeMapper" where
  "addPointToCloud lib point s =
     s\<lparr>map_cloud := map_cloud s @ [point],
       map_octree := insert (voxel_of lib point) (map_octree s)\<rparr>"

subsection \<open>The mapper's operations\<close>

text \<open>\<open>resetMap\<close>: a new octree, a new empty cloud, and the octree is given the cloud.\<close>

definition resetMap :: "('p, 'k) OctreeMapper \<Rightarrow> ('p, 'k) OctreeMapper" where
  "resetMap s = s\<lparr>map_octree := {}, map_cloud := []\<rparr>"

text \<open>\<open>addPointsToMap\<close>: the loop over the input cloud, first point first.\<close>

fun addPointsToMap ::
  "('p, 'k) pcl \<Rightarrow> 'p list \<Rightarrow> ('p, 'k) OctreeMapper \<Rightarrow> ('p, 'k) OctreeMapper" where
  "addPointsToMap lib [] s = s"
| "addPointsToMap lib (point # rest) s =
     addPointsToMap lib rest
       (if \<not> isVoxelOccupiedAtPoint lib (map_octree s) point
        then addPointToCloud lib point s else s)"

text \<open>
  The loop of \<open>approxNearestNeighbors\<close>, with the output cloud filled so far. The read
  \<open>map_cloud_->points[result_index]\<close> is unchecked in the source: an index at or beyond
  the size of the map cloud is a fault here.
\<close>

fun nearest_neighbors_loop ::
  "('p, 'k) pcl \<Rightarrow> ('p, 'k) OctreeMapper \<Rightarrow> 'p list \<Rightarrow> 'p list \<Rightarrow> fault + 'p list" where
  "nearest_neighbors_loop lib s [] nearest_neighbors = Inr nearest_neighbors"
| "nearest_neighbors_loop lib s (point # rest) nearest_neighbors =
     (let result_index = approxNearestSearch lib (map_octree s) (map_cloud s) point in
      if result_index \<ge> 0 then
        if nat result_index < length (map_cloud s)
        then nearest_neighbors_loop lib s rest
               (nearest_neighbors @ [map_cloud s ! nat result_index])
        else Inl IndexOutOfRange
      else nearest_neighbors_loop lib s rest nearest_neighbors)"

text \<open>
  \<open>approxNearestNeighbors\<close>: the output cloud is cleared first, so what it held is no
  argument; the result is the boolean returned and the output cloud.
\<close>

definition approxNearestNeighbors ::
  "('p, 'k) pcl \<Rightarrow> ('p, 'k) OctreeMapper \<Rightarrow> 'p list \<Rightarrow> fault + (bool \<times> 'p list)" where
  "approxNearestNeighbors lib s cloud =
     (case nearest_neighbors_loop lib s cloud [] of
        Inl e \<Rightarrow> Inl e
      | Inr nearest_neighbors \<Rightarrow> Inr (length nearest_neighbors > 0, nearest_neighbors))"

text \<open>
  \<open>transformCloudToPoseFrame\<close>: the result is the output cloud after the call. The
  exception of the library is caught by an empty handler, which leaves the output cloud
  as it was; the function returns nothing else.
\<close>

definition transformCloudToPoseFrame ::
  "('p, 'k) pcl \<Rightarrow> 'p list \<Rightarrow> Pose6DOF \<Rightarrow> 'p list \<Rightarrow> 'p list" where
  "transformCloudToPoseFrame lib in_cloud pose out_cloud =
     (let tf_cloud_in_pose = toTFTransform pose in
      case transformPoint lib tf_cloud_in_pose of
        Some f \<Rightarrow> map f in_cloud
      | None \<Rightarrow> out_cloud)"

text \<open>A reading of \<open>ros::Time().now()\<close>.\<close>

definition ros_Time_now ::
  "ros_env \<Rightarrow> ('p, 'k) OctreeMapper \<Rightarrow> ros_Time \<times> ('p, 'k) OctreeMapper" where
  "ros_Time_now env s = (now env (clock_reads s), s\<lparr>clock_reads := Suc (clock_reads s)\<rparr>)"

text \<open>
  \<open>estimateTransformICP\<close>: the result is the boolean returned, the value of the reference
  parameter \<open>transform\<close> after the call, and the state. The clock is read only when the
  registration has converged; the pose built from the matrix carries no timestamp here.
\<close>

definition estimateTransformICP ::
  "('p, 'k) pcl \<Rightarrow> ros_env \<Rightarrow> 'p list \<Rightarrow> 'p list \<Rightarrow> Pose6DOF \<Rightarrow> ('p, 'k) OctreeMapper
     \<Rightarrow> bool \<times> Pose6DOF \<times> ('p, 'k) OctreeMapper" where
  "estimateTransformICP lib env curr_cloud nn_cloud transform s =
     (let icp = gicp_align lib curr_cloud nn_cloud;
          T = getFinalTransformation icp in
      if hasConverged icp then
        (case ros_Time_now env s of (t, s') \<Rightarrow> (True, Pose6DOF_of_matrix T, s'))
      else (False, transform, s))"

text \<open>
  Modelled from the spec: \<open>publishPointCloud\<close> (utils/messaging\_utils.h of the repository,
  not under src/): the cloud is emitted to the sink, with its frame and stamp.
\<close>

definition publishPointCloud ::
  "'p list \<Rightarrow> string \<Rightarrow> ros_Time \<Rightarrow> topic \<Rightarrow> ('p, 'k) OctreeMapper \<Rightarrow> ('p, 'k) OctreeMapper" where
  "publishPointCloud cloud frame stamp pub s =
     s\<lparr>published := published s @ [PointCloud2 pub cloud frame stamp]\<rparr>"

text \<open>
  Modelled from the spec: \<open>insertPoseInPath\<close> (utils/messaging\_utils.h, not under src/):
  the pose and its timestamp are appended to the path. The ROS pose that
  \<open>toROSPose\<close> gives is the pose itself here.
\<close>

definition insertPoseInPath :: "Pose6DOF \<Rightarrow> string \<Rightarrow> ros_Time \<Rightarrow> nav_Path \<Rightarrow> nav_Path" where
  "insertPoseInPath pose frame t path = path\<lparr>poses := poses path @ [(pose, t)]\<rparr>"

text \<open>\<open>publishPath\<close>: the clock is read twice, for the new entry and for the header.\<close>

definition publishPath ::
  "ros_env \<Rightarrow> Pose6DOF \<Rightarrow> ('p, 'k) OctreeMapper \<Rightarrow> ('p, 'k) OctreeMapper" where
  "publishPath env latest_pose s =
     (case ros_Time_now env s of (t1, s1) \<Rightarrow>
      case ros_Time_now env s1 of (t2, s2) \<Rightarrow>
        (let path = (insertPoseInPath latest_pose (map_frame s2) t1 (refined_path s2))
                      \<lparr>header_stamp := t2, header_frame_id := map_frame s2\<rparr>
         in s2\<lparr>refined_path := path, published := published s2 @ [PathMsg path]\<rparr>))"

text \<open>
  \<open>refineTransformAndGrowMap\<close>: the result is a fault, or the boolean returned, the value
  of the reference parameter \<open>transform\<close> after the call, and the state. The second call
  of \<open>transformCloudToPoseFrame\<close> writes into \<open>cloud_in_map\<close>, which holds the scan under
  the raw pose at that moment.
\<close>

definition refineTransformAndGrowMap ::
  "('p, 'k) pcl \<Rightarrow> ros_env \<Rightarrow> ros_Time \<Rightarrow> 'p list \<Rightarrow> Pose6DOF \<Rightarrow> Pose6DOF
     \<Rightarrow> ('p, 'k) OctreeMapper \<Rightarrow> fault + (bool \<times> Pose6DOF \<times> ('p, 'k) OctreeMapper)" where
  "refineTransformAndGrowMap lib env stamp cloud raw_pose transform s =
     (let cloud_in_map = transformCloudToPoseFrame lib cloud raw_pose [] in
      if length (map_cloud s) = 0 then
        Inr (False, transform, addPointsToMap lib cloud_in_map s)
      else
        (case approxNearestNeighbors lib s cloud_in_map of
           Inl e \<Rightarrow> Inl e
         | Inr (found, nn_cloud_in_map) \<Rightarrow>
             (let nn_cloud =
                    transformCloudToPoseFrame lib nn_cloud_in_map (inverse_pose raw_pose) [];
                  s1 = (if nn_cloud_subscribers env > 0
                        then publishPointCloud nn_cloud (robot_frame s) stamp nn_cloud_pub s
                        else s)
              in case estimateTransformICP lib env cloud nn_cloud transform s1 of
                   (True, transform', s2) \<Rightarrow>
                     (let refined_pose = pose_plus raw_pose transform';
                          cloud_in_map' =
                            transformCloudToPoseFrame lib cloud refined_pose cloud_in_map;
                          s3 = addPointsToMap lib cloud_in_map' s2;
                          s4 = (if map_cloud_subscribers env > 0
                                then publishPointCloud (map_cloud s3) (map_frame s3) stamp
                                       map_cloud_pub s3
                                else s3);
                          s5 = (if refined_path_subscribers env > 0
                                then publishPath env refined_pose s4 else s4);
                          s6 = (if registered_cloud_subscribers env > 0
                                then publishPointCloud cloud_in_map' (map_frame s5) stamp
                                       registered_cloud_pub s5
                                else s5)
                      in Inr (True, transform', s6))
                 | (False, transform', s2) \<Rightarrow> Inr (False, transform', s2))))"

text \<open>
  The mapper after its constructor: \<open>loadParameters\<close> with no parameter set gives the
  frames their defaults, and \<open>resetMap\<close> gives the empty map.
\<close>

definition new_OctreeMapper :: "('p, 'k) OctreeMapper" where
  "new_OctreeMapper =
     resetMap
       \<lparr>map_cloud = [], map_octree = {},
        refined_path = \<lparr>header_stamp = 0, header_frame_id = [], poses = []\<rparr>,
        map_frame = ''map'', robot_frame = ''base_link'',
        published = [], clock_reads = 0\<rparr>"

subsection \<open>The invariant of the map\<close>

text \<open>
  The occupied cells of the octree are the cells of the points of the map cloud, and no
  two points of the map cloud lie in one cell.
\<close>

definition octree_inv :: "('p, 'k) pcl \<Rightarrow> ('p, 'k) OctreeMapper \<Rightarrow> bool" where
  "octree_inv lib s \<longleftrightarrow>
     map_octree s = voxel_of lib ` set (map_cloud s) \<and>
     distinct (map (voxel_of lib) (map_cloud s))"

subsection \<open>A library for the concrete evaluations\<close>

text \<open>
  Points with real coordinates; a grid of resolution 1/2; an exhaustive nearest-neighbour
  search; a transform that throws unless the basis is orthonormal; and a registration that
  aligns the first point of the source with the first point of the target, and converges
  when both exist and are at most 1 apart in each coordinate.
\<close>

fun sample_voxel :: "Vector3 \<Rightarrow> int \<times> int \<times> int" where
  "sample_voxel (x, y, z) = (\<lfloor>2 * x\<rfloor>, \<lfloor>2 * y\<rfloor>, \<lfloor>2 * z\<rfloor>)"

fun sqr_dist :: "Vector3 \<Rightarrow> Vector3 \<Rightarrow> real" where
  "sqr_dist (a1, a2, a3) (b1, b2, b3) =
     (a1 - b1) * (a1 - b1) + (a2 - b2) * (a2 - b2) + (a3 - b3) * (a3 - b3)"

text \<open>The index of the point of the cloud nearest to \<open>q\<close>, from index \<open>i\<close> on; -1 on no point.\<close>

fun sample_search_from :: "Vector3 \<Rightarrow> Vector3 list \<Rightarrow> int \<Rightarrow> (int \<times> real) option \<Rightarrow> int" where
  "sample_search_from q [] i best = (case best of None \<Rightarrow> - 1 | Some (j, d) \<Rightarrow> j)"
| "sample_search_from q (p # ps) i best =
     sample_search_from q ps (i + 1)
       (case best of
          None \<Rightarrow> Some (i, sqr_dist q p)
        | Some (j, d) \<Rightarrow> if sqr_dist q p < d then Some (i, sqr_dist q p) else Some (j, d))"

definition sample_transformPoint :: "tf_Transform \<Rightarrow> (Vector3 \<Rightarrow> Vector3) option" where
  "sample_transformPoint t =
     (if mat_mul (basis t) (transpose3 (basis t)) = identity3
      then Some (\<lambda>p. vadd (mat_vec (basis t) p) (origin t)) else None)"

fun close_enough :: "Vector3 \<Rightarrow> bool" where
  "close_enough (d1, d2, d3) \<longleftrightarrow> \<bar>d1\<bar> \<le> 1 \<and> \<bar>d2\<bar> \<le> 1 \<and> \<bar>d3\<bar> \<le> 1"

fun sample_gicp :: "Vector3 list \<Rightarrow> Vector3 list \<Rightarrow> gicp_result" where
  "sample_gicp (p # ps) (q # qs) =
     \<lparr>hasConverged = close_enough (vadd q (vneg p)),
      getFinalTransformation = \<lparr>block3 = identity3, column4 = vadd q (vneg p)\<rparr>\<rparr>"
| "sample_gicp ps qs =
     \<lparr>hasConverged = False,
      getFinalTransformation = \<lparr>block3 = identity3, column4 = (0, 0, 0)\<rparr>\<rparr>"

definition sample_pcl :: "(Vector3, int \<times> int \<times> int) pcl" where
  "sample_pcl =
     \<lparr>voxel_of = sample_voxel,
      approxNearestSearch = (\<lambda>octree cloud q. sample_search_from q cloud 0 None),
      transformPoint = sample_transformPoint,
      gicp_align = sample_gicp\<rparr>"

definition identity_pose :: Pose6DOF where
  "identity_pose = \<lparr>pos = (0, 0, 0), rot = identity3\<rparr>"

text \<open>No subscriber on any output; the clock reads 100, 101, ...\<close>

definition quiet_env :: ros_env where
  "quiet_env =
     \<lparr>nn_cloud_subscribers = 0, map_cloud_subscribers = 0, refined_path_subscribers = 0,
      registered_cloud_subscribers = 0, now = (\<lambda>n. 100 + n)\<rparr>"

text \<open>Every output has a subscriber; the clock reads 100, 101, ...\<close>

definition busy_env :: ros_env where
  "busy_env =
     \<lparr>nn_cloud_subscribers = 1, map_cloud_subscribers = 1, refined_path_subscribers = 1,
      registered_cloud_subscribers = 1, now = (\<lambda>n. 100 + n)\<rparr>"

text \<open>A quarter turn about the z axis.\<close>

definition rot90z :: Matrix3 where
  "rot90z = ((0, - 1, 0), (1, 0, 0), (0, 0, 1))"

definition raw1 :: Pose6DOF where
  "raw1 = \<lparr>pos = (1/4, 0, 0), rot = rot90z\<rparr>"

definition raw_shift :: Pose6DOF where
  "raw_shift = \<lparr>pos = (1/4, 0, 0), rot = identity3\<rparr>"

text \<open>A pose whose rotation is the zero matrix: no rigid transform.\<close>

definition bad_pose :: Pose6DOF where
  "bad_pose = \<lparr>pos = (0, 0, 0), rot = ((0, 0, 0), (0, 0, 0), (0, 0, 0))\<rparr>"

text \<open>A mapper that holds two points, one unit apart.\<close>

definition tracking_mapper :: "(Vector3, int \<times> int \<times> int) OctreeMapper" where
  "tracking_mapper =
     \<lparr>map_cloud = [(0, 0, 0), (1, 0, 0)], map_octree = {(0, 0, 0), (2, 0, 0)},
      refined_path = \<lparr>header_stamp = 0, header_frame_id = [], poses = []\<rparr>,
      map_frame = ''map'', robot_frame = ''base_link'',
      published = [], clock_reads = 0\<rparr>"

text \<open>
  \<open>scan1\<close> lies a tenth off the map under \<open>raw1\<close>, \<open>scan2\<close> lies five units off, \<open>scan3\<close>
  lies a tenth off under the identity pose; \<open>scan100\<close> is 100 points one unit apart.
\<close>

definition scan1 :: "Vector3 list" where
  "scan1 = [(1/10, 1/4, 0), (1/10, - 1/4, 0)]"

definition scan2 :: "Vector3 list" where
  "scan2 = [(5, 1/4, 0)]"

definition scan3 :: "Vector3 list" where
  "scan3 = [(1/10, 0, 0)]"

definition scan100 :: "Vector3 list" where
  "scan100 = map (\<lambda>i. (real i, 0, 0)) [0..<100]"

definition shift_quarter :: "Vector3 \<Rightarrow> Vector3" where
  "shift_quarter p = vadd (mat_vec identity3 p) (1/4, 0, 0)"

text \<open>The correction that the sample registration finds for \<open>scan1\<close> and for \<open>scan3\<close>.\<close>

definition delta1 :: Pose6DOF where
  "delta1 = \<lparr>pos = (- 1/10, 0, 0), rot = identity3\<rparr>"

text \<open>\<open>tracking_mapper\<close> after \<open>scan1\<close> under \<open>raw1\<close>, with no subscriber.\<close>

definition grown_mapper :: "(Vector3, int \<times> int \<times> int) OctreeMapper" where
  "grown_mapper =
     tracking_mapper
       \<lparr>map_cloud := [(0, 0, 0), (1, 0, 0), (1/2, 0, 0)],
        map_octree := {(0, 0, 0), (2, 0, 0), (1, 0, 0)},
        clock_reads := 1\<rparr>"


section \<open>Properties\<close>

subsection \<open>Insertion into the map\<close>

lemma addPointToCloud_fields [simp]:
  "map_cloud (addPointToCloud lib p s) = map_cloud s @ [p]"
  "map_octree (addPointToCloud lib p s) = insert (voxel_of lib p) (map_octree s)"
  "refined_path (addPointToCloud lib p s) = refined_path s"
  "published (addPointToCloud lib p s) = published s"
  "map_frame (addPointToCloud lib p s) = map_frame s"
  "robot_frame (addPointToCloud lib p s) = robot_frame s"
  "clock_reads (addPointToCloud lib p s) = clock_reads s"
  by (simp_all add: addPointToCloud_def)

lemma addPointsToMap_frame:
  "refined_path (addPointsToMap lib cloud s) = refined_path s \<and>
   published (addPointsToMap lib cloud s) = published s \<and>
   map_frame (addPointsToMap lib cloud s) = map_frame s \<and>
   robot_frame (addPointsToMap lib cloud s) = robot_frame s \<and>
   clock_reads (addPointsToMap lib cloud s) = clock_reads s"
  by (induction cloud arbitrary: s) simp_all

lemma addPointsToMap_append:
  "addPointsToMap lib (xs @ ys) s = addPointsToMap lib ys (addPointsToMap lib xs s)"
  by (induction xs arbitrary: s) simp_all

lemma octree_inv_step:
  assumes "octree_inv lib s"
  shows "octree_inv lib
           (if \<not> isVoxelOccupiedAtPoint lib (map_octree s) p
            then addPointToCloud lib p s else s)"
  using assms by (auto simp: octree_inv_def isVoxelOccupiedAtPoint_def)

lemma octree_inv_addPointsToMap:
  "octree_inv lib s \<Longrightarrow> octree_inv lib (addPointsToMap lib cloud s)"
proof (induction cloud arbitrary: s)
  case Nil
  then show ?case by simp
next
  case (Cons p cloud)
  from Cons.prems have "octree_inv lib
      (if \<not> isVoxelOccupiedAtPoint lib (map_octree s) p then addPointToCloud lib p s else s)"
    by (rule octree_inv_step)
  then show ?case using Cons.IH by simp
qed

lemma octree_inv_resetMap: "octree_inv lib (resetMap s)"
  by (simp add: octree_inv_def resetMap_def)

lemma addPointsToMap_occupied:
  "\<forall>p \<in> set cloud. voxel_of lib p \<in> map_octree s \<Longrightarrow> addPointsToMap lib cloud s = s"
  by (induction cloud arbitrary: s) (simp_all add: isVoxelOccupiedAtPoint_def)

lemma addPointsToMap_octree:
  "map_octree (addPointsToMap lib cloud s) = map_octree s \<union> voxel_of lib ` set cloud"
  by (induction cloud arbitrary: s) (auto simp: isVoxelOccupiedAtPoint_def)

lemma addPointsToMap_fresh:
  "distinct (map (voxel_of lib) cloud) \<Longrightarrow> voxel_of lib ` set cloud \<inter> map_octree s = {}
     \<Longrightarrow> map_cloud (addPointsToMap lib cloud s) = map_cloud s @ cloud"
proof (induction cloud arbitrary: s)
  case Nil
  then show ?case by simp
next
  case (Cons p cloud)
  from Cons.prems have free: "\<not> isVoxelOccupiedAtPoint lib (map_octree s) p"
    by (auto simp: isVoxelOccupiedAtPoint_def)
  from Cons.prems have "distinct (map (voxel_of lib) cloud)"
    and "voxel_of lib ` set cloud \<inter> map_octree (addPointToCloud lib p s) = {}"
    by auto
  then have "map_cloud (addPointsToMap lib cloud (addPointToCloud lib p s)) =
      map_cloud (addPointToCloud lib p s) @ cloud"
    by (rule Cons.IH)
  with free show ?case by simp
qed

lemma addPointsToMap_prefix:
  "\<exists>added. map_cloud (addPointsToMap lib cloud s) = map_cloud s @ added \<and>
           set added \<subseteq> set cloud"
proof (induction cloud arbitrary: s)
  case Nil
  then show ?case by simp
next
  case (Cons p cloud)
  let ?s = "if \<not> isVoxelOccupiedAtPoint lib (map_octree s) p then addPointToCloud lib p s else s"
  from Cons.IH [of ?s] obtain added where
    a: "map_cloud (addPointsToMap lib cloud ?s) = map_cloud ?s @ added" "set added \<subseteq> set cloud"
    by blast
  show ?case
  proof (cases "isVoxelOccupiedAtPoint lib (map_octree s) p")
    case True
    with a show ?thesis by auto
  next
    case False
    with a have "map_cloud (addPointsToMap lib (p # cloud) s) = map_cloud s @ (p # added)"
      by simp
    moreover from a have "set (p # added) \<subseteq> set (p # cloud)" by auto
    ultimately show ?thesis by blast
  qed
qed

lemma addPointsToMap_replicate:
  "0 < n \<Longrightarrow> map_cloud (addPointsToMap lib (replicate n p) (resetMap s)) = [p]"
proof -
  assume "0 < n"
  then obtain m where n: "n = Suc m" by (cases n) auto
  let ?s1 = "addPointToCloud lib p (resetMap s)"
  have "\<forall>q \<in> set (replicate m p). voxel_of lib q \<in> map_octree ?s1" by simp
  then have "addPointsToMap lib (replicate m p) ?s1 = ?s1"
    by (rule addPointsToMap_occupied)
  then show ?thesis
    by (simp add: n isVoxelOccupiedAtPoint_def resetMap_def)
qed

subsection \<open>The nearest-neighbour loop\<close>

lemma nearest_neighbors_loop_result:
  "nearest_neighbors_loop lib s cloud acc = Inr nn \<Longrightarrow>
     nn = acc @ map (\<lambda>p. map_cloud s ! nat (approxNearestSearch lib (map_octree s) (map_cloud s) p))
                (filter (\<lambda>p. 0 \<le> approxNearestSearch lib (map_octree s) (map_cloud s) p) cloud)"
proof (induction cloud arbitrary: acc)
  case Nil
  then show ?case by simp
next
  case (Cons p cloud)
  show ?case
  proof (cases "0 \<le> approxNearestSearch lib (map_octree s) (map_cloud s) p")
    case True
    with Cons.prems have
      "nearest_neighbors_loop lib s cloud
         (acc @ [map_cloud s ! nat (approxNearestSearch lib (map_octree s) (map_cloud s) p)]) = Inr nn"
      by (simp add: Let_def split: if_splits)
    from Cons.IH [OF this] True show ?thesis by simp
  next
    case False
    with Cons.prems have "nearest_neighbors_loop lib s cloud acc = Inr nn"
      by (simp add: Let_def)
    from Cons.IH [OF this] False show ?thesis by simp
  qed
qed

lemma nearest_neighbors_loop_in_map:
  "nearest_neighbors_loop lib s cloud acc = Inr nn \<Longrightarrow> set nn \<subseteq> set acc \<union> set (map_cloud s)"
proof (induction cloud arbitrary: acc)
  case Nil
  then show ?case by auto
next
  case (Cons p cloud)
  show ?case
  proof (cases "0 \<le> approxNearestSearch lib (map_octree s) (map_cloud s) p")
    case True
    with Cons.prems have
      inr: "nat (approxNearestSearch lib (map_octree s) (map_cloud s) p) < length (map_cloud s)"
      and rec: "nearest_neighbors_loop lib s cloud
         (acc @ [map_cloud s ! nat (approxNearestSearch lib (map_octree s) (map_cloud s) p)]) = Inr nn"
      by (simp_all add: Let_def split: if_splits)
    from inr have "map_cloud s ! nat (approxNearestSearch lib (map_octree s) (map_cloud s) p)
        \<in> set (map_cloud s)"
      by (rule nth_mem)
    with Cons.IH [OF rec] show ?thesis by auto
  next
    case False
    with Cons.prems have "nearest_neighbors_loop lib s cloud acc = Inr nn"
      by (simp add: Let_def)
    from Cons.IH [OF this] show ?thesis .
  qed
qed

lemma nearest_neighbors_loop_returns:
  "\<forall>p \<in> set cloud. approxNearestSearch lib (map_octree s) (map_cloud s) p < int (length (map_cloud s))
     \<Longrightarrow> \<exists>nn. nearest_neighbors_loop lib s cloud acc = Inr nn"
  by (induction cloud arbitrary: acc) (auto simp: Let_def)

lemma nearest_neighbors_loop_none:
  "\<forall>p \<in> set cloud. approxNearestSearch lib (map_octree s) (map_cloud s) p < 0
     \<Longrightarrow> nearest_neighbors_loop lib s cloud acc = Inr acc"
  by (induction cloud arbitrary: acc) (auto simp: Let_def)

lemma nearest_neighbors_loop_empty_map:
  "map_cloud s = [] \<Longrightarrow> nearest_neighbors_loop lib s cloud acc = Inr nn \<Longrightarrow> nn = acc"
  by (induction cloud arbitrary: acc) (auto simp: Let_def split: if_splits)

subsection \<open>The growth transition\<close>

lemma publishPointCloud_fields [simp]:
  "map_cloud (publishPointCloud c fr st pub s) = map_cloud s"
  "map_octree (publishPointCloud c fr st pub s) = map_octree s"
  "refined_path (publishPointCloud c fr st pub s) = refined_path s"
  "map_frame (publishPointCloud c fr st pub s) = map_frame s"
  "robot_frame (publishPointCloud c fr st pub s) = robot_frame s"
  "clock_reads (publishPointCloud c fr st pub s) = clock_reads s"
  by (simp_all add: publishPointCloud_def)

lemma publishPath_fields [simp]:
  "map_cloud (publishPath env pose s) = map_cloud s"
  "map_octree (publishPath env pose s) = map_octree s"
  "poses (refined_path (publishPath env pose s)) =
     poses (refined_path s) @ [(pose, now env (clock_reads s))]"
  by (simp_all add: publishPath_def ros_Time_now_def insertPoseInPath_def Let_def)

lemma estimateTransformICP_fields:
  "estimateTransformICP lib env src tgt transform s = (ok, transform', s') \<Longrightarrow>
     map_cloud s' = map_cloud s \<and> map_octree s' = map_octree s \<and>
     refined_path s' = refined_path s \<and> map_frame s' = map_frame s \<and>
     published s' = published s \<and>
     clock_reads s' = (if ok then Suc (clock_reads s) else clock_reads s) \<and>
     ok = hasConverged (gicp_align lib src tgt) \<and>
     transform' = (if ok then Pose6DOF_of_matrix (getFinalTransformation (gicp_align lib src tgt))
                   else transform)"
  by (auto simp: estimateTransformICP_def ros_Time_now_def Let_def split: if_splits)

lemma addPointsToMap_cong:
  "map_cloud s = map_cloud t \<Longrightarrow> map_octree s = map_octree t \<Longrightarrow>
     map_cloud (addPointsToMap lib c s) = map_cloud (addPointsToMap lib c t) \<and>
     map_octree (addPointsToMap lib c s) = map_octree (addPointsToMap lib c t)"
proof (induction c arbitrary: s t)
  case Nil
  then show ?case by simp
next
  case (Cons p c)
  let ?s = "if \<not> isVoxelOccupiedAtPoint lib (map_octree s) p then addPointToCloud lib p s else s"
  let ?t = "if \<not> isVoxelOccupiedAtPoint lib (map_octree t) p then addPointToCloud lib p t else t"
  from Cons.prems have "map_cloud ?s = map_cloud ?t" and "map_octree ?s = map_octree ?t"
    by simp_all
  from Cons.IH [OF this] show ?case by simp
qed

lemma tracking_converged:
  assumes "map_cloud s \<noteq> []"
    and "approxNearestNeighbors lib s (transformCloudToPoseFrame lib cloud raw_pose []) =
           Inr (found, nn_cloud_in_map)"
    and "hasConverged (gicp_align lib cloud
           (transformCloudToPoseFrame lib nn_cloud_in_map (inverse_pose raw_pose) []))"
    and "delta = Pose6DOF_of_matrix (getFinalTransformation (gicp_align lib cloud
           (transformCloudToPoseFrame lib nn_cloud_in_map (inverse_pose raw_pose) [])))"
  shows "\<exists>s'. refineTransformAndGrowMap lib env stamp cloud raw_pose transform s =
                 Inr (True, delta, s') \<and>
              map_cloud s' =
                map_cloud (addPointsToMap lib
                  (transformCloudToPoseFrame lib cloud (pose_plus raw_pose delta)
                     (transformCloudToPoseFrame lib cloud raw_pose [])) s) \<and>
              map_octree s' =
                map_octree (addPointsToMap lib
                  (transformCloudToPoseFrame lib cloud (pose_plus raw_pose delta)
                     (transformCloudToPoseFrame lib cloud raw_pose [])) s) \<and>
              poses (refined_path s') =
                (if refined_path_subscribers env > 0
                 then poses (refined_path s) @
                        [(pose_plus raw_pose delta, now env (Suc (clock_reads s)))]
                 else poses (refined_path s))"
proof -
  let ?cim = "transformCloudToPoseFrame lib cloud raw_pose []"
  let ?nn = "transformCloudToPoseFrame lib nn_cloud_in_map (inverse_pose raw_pose) []"
  let ?s1 = "if nn_cloud_subscribers env > 0
             then publishPointCloud ?nn (robot_frame s) stamp nn_cloud_pub s else s"
  let ?s2 = "?s1\<lparr>clock_reads := Suc (clock_reads ?s1)\<rparr>"
  let ?cim' = "transformCloudToPoseFrame lib cloud (pose_plus raw_pose delta) ?cim"
  let ?s3 = "addPointsToMap lib ?cim' ?s2"
  let ?s4 = "if map_cloud_subscribers env > 0
             then publishPointCloud (map_cloud ?s3) (map_frame ?s3) stamp map_cloud_pub ?s3
             else ?s3"
  let ?s5 = "if refined_path_subscribers env > 0
             then publishPath env (pose_plus raw_pose delta) ?s4 else ?s4"
  let ?s6 = "if registered_cloud_subscribers env > 0
             then publishPointCloud ?cim' (map_frame ?s5) stamp registered_cloud_pub ?s5
             else ?s5"
  have icp: "estimateTransformICP lib env cloud ?nn transform ?s1 = (True, delta, ?s2)"
    using assms(3,4) by (simp add: estimateTransformICP_def ros_Time_now_def Let_def)
  have res: "refineTransformAndGrowMap lib env stamp cloud raw_pose transform s =
      Inr (True, delta, ?s6)"
    unfolding refineTransformAndGrowMap_def Let_def
    using assms(1,2) icp by simp
  have s2: "map_cloud ?s2 = map_cloud s" "map_octree ?s2 = map_octree s"
    "refined_path ?s2 = refined_path s" "clock_reads ?s2 = Suc (clock_reads s)"
    by simp_all
  have s3: "map_cloud ?s3 = map_cloud (addPointsToMap lib ?cim' s)"
    "map_octree ?s3 = map_octree (addPointsToMap lib ?cim' s)"
    using addPointsToMap_cong [OF s2(1,2), of lib ?cim'] by simp_all
  have s3': "refined_path ?s3 = refined_path s" "clock_reads ?s3 = Suc (clock_reads s)"
    using addPointsToMap_frame [of lib ?cim' ?s2] s2(3,4) by simp_all
  have s4: "map_cloud ?s4 = map_cloud ?s3" "map_octree ?s4 = map_octree ?s3"
    "refined_path ?s4 = refined_path s" "clock_reads ?s4 = Suc (clock_reads s)"
    using s3' by simp_all
  have s5: "map_cloud ?s5 = map_cloud ?s3" "map_octree ?s5 = map_octree ?s3"
    "poses (refined_path ?s5) =
       (if refined_path_subscribers env > 0
        then poses (refined_path s) @ [(pose_plus raw_pose delta, now env (Suc (clock_reads s)))]
        else poses (refined_path s))"
    using s4 by simp_all
  have s6: "map_cloud ?s6 = map_cloud ?s3" "map_octree ?s6 = map_octree ?s3"
    "poses (refined_path ?s6) = poses (refined_path ?s5)"
    using s5(1,2) by simp_all
  from res s3 s5(3) s6 show ?thesis by simp
qed

lemma tracking_not_converged:
  assumes "map_cloud s \<noteq> []"
    and "approxNearestNeighbors lib s (transformCloudToPoseFrame lib cloud raw_pose []) =
           Inr (found, nn_cloud_in_map)"
    and "\<not> hasConverged (gicp_align lib cloud
           (transformCloudToPoseFrame lib nn_cloud_in_map (inverse_pose raw_pose) []))"
  shows "\<exists>s'. refineTransformAndGrowMap lib env stamp cloud raw_pose transform s =
                 Inr (False, transform, s') \<and>
              map_cloud s' = map_cloud s \<and> map_octree s' = map_octree s \<and>
              refined_path s' = refined_path s"
  using assms
  by (simp add: refineTransformAndGrowMap_def estimateTransformICP_def Let_def)

lemma bootstrap_result:
  "map_cloud s = [] \<Longrightarrow>
     refineTransformAndGrowMap lib env stamp cloud raw_pose transform s =
       Inr (False, transform,
            addPointsToMap lib (transformCloudToPoseFrame lib cloud raw_pose []) s)"
  by (simp add: refineTransformAndGrowMap_def)

lemma tracking_fault:
  "map_cloud s \<noteq> [] \<Longrightarrow>
   approxNearestNeighbors lib s (transformCloudToPoseFrame lib cloud raw_pose []) = Inl e \<Longrightarrow>
     refineTransformAndGrowMap lib env stamp cloud raw_pose transform s = Inl e"
  by (simp add: refineTransformAndGrowMap_def)

text \<open>The definitions that the concrete evaluations unfold.\<close>

lemmas sample_defs =
  sample_pcl_def isVoxelOccupiedAtPoint_def addPointToCloud_def new_OctreeMapper_def
  resetMap_def transformCloudToPoseFrame_def toTFTransform_def sample_transformPoint_def
  identity3_def raw1_def raw_shift_def rot90z_def tracking_mapper_def grown_mapper_def
  scan1_def scan2_def scan3_def delta1_def approxNearestNeighbors_def inverse_pose_def
  estimateTransformICP_def refineTransformAndGrowMap_def pose_plus_def compose_def
  Pose6DOF_of_matrix_def quiet_env_def busy_env_def publishPath_def publishPointCloud_def
  ros_Time_now_def insertPoseInPath_def identity_pose_def bad_pose_def fieldwise_add_def
  shift_quarter_def octree_inv_def Let_def

subsection \<open>The claims\<close>

text \<open>
  C4. The map holds at most one point per voxel cell: the invariant holds after \<open>resetMap\<close>
  and is kept by \<open>addPointsToMap\<close>; inserting a point whose cell is occupied leaves the
  map cloud as it was; and inserting one point \<open>p\<close> any number of times (at least once)
  into a fresh map leaves the map cloud \<open>[p]\<close>, of size 1.
\<close>

theorem voxel_dedup:
  "octree_inv lib (resetMap s0) \<and>
   (octree_inv lib s \<longrightarrow> octree_inv lib (addPointsToMap lib cloud s)) \<and>
   (isVoxelOccupiedAtPoint lib (map_octree s) p \<longrightarrow>
      map_cloud (addPointsToMap lib [p] s) = map_cloud s) \<and>
   (0 < n \<longrightarrow>
      map_cloud (addPointsToMap lib (replicate n p) (resetMap s0)) = [p] \<and>
      length (map_cloud (addPointsToMap lib (replicate n p) (resetMap s0))) = 1)"
  using octree_inv_resetMap [of lib s0] octree_inv_addPointsToMap [of lib s cloud]
    addPointsToMap_replicate [of n lib p s0]
  by simp

theorem voxel_dedup_witness:
  "octree_inv sample_pcl tracking_mapper \<and>
   octree_inv sample_pcl (addPointsToMap sample_pcl scan3 tracking_mapper) \<and>
   isVoxelOccupiedAtPoint sample_pcl (map_octree tracking_mapper) (1/10, 0, 0) \<and>
   map_cloud (addPointsToMap sample_pcl [(1/10, 0, 0)] tracking_mapper) =
     [(0, 0, 0), (1, 0, 0)] \<and>
   (0::nat) < 3 \<and>
   map_cloud (addPointsToMap sample_pcl (replicate 3 (1/10, 0, 0)) (resetMap tracking_mapper)) =
     [(1/10, 0, 0)]"
proof -
  have h1: "octree_inv sample_pcl tracking_mapper"
    by (simp add: sample_defs)
  have h2: "isVoxelOccupiedAtPoint sample_pcl (map_octree tracking_mapper) (1/10, 0, 0)"
    by (simp add: sample_defs)
  have h3: "(0::nat) < 3" by simp
  have m: "map_cloud tracking_mapper = [(0, 0, 0), (1, 0, 0)]"
    by (simp add: tracking_mapper_def)
  from voxel_dedup [of sample_pcl tracking_mapper tracking_mapper scan3 "(1/10, 0, 0)" 3]
    h1 h2 h3 m
  show ?thesis by simp
qed

text \<open>
  C3. A scan that arrives while the map is empty is moved by the raw pose (a well-formed
  transform, which the library applies point by point), each moved point goes through the
  voxel-unique insertion, and the transition returns false; when the moved points lie in
  distinct cells the map cloud is the moved scan, so a scan of 100 such points gives a map
  of exactly 100 points.
\<close>

theorem bootstrap_grows_map:
  assumes "map_cloud s = []" and "octree_inv lib s"
    and "transformPoint lib (toTFTransform raw_pose) = Some f"
  shows "refineTransformAndGrowMap lib env stamp cloud raw_pose transform s =
           Inr (False, transform, addPointsToMap lib (map f cloud) s) \<and>
         map_octree (addPointsToMap lib (map f cloud) s) = voxel_of lib ` f ` set cloud \<and>
         (distinct (map (voxel_of lib) (map f cloud)) \<longrightarrow>
            map_cloud (addPointsToMap lib (map f cloud) s) = map f cloud \<and>
            (length cloud = 100 \<longrightarrow>
               length (map_cloud (addPointsToMap lib (map f cloud) s)) = 100))"
proof -
  from assms(3) have t: "transformCloudToPoseFrame lib cloud raw_pose [] = map f cloud"
    by (simp add: transformCloudToPoseFrame_def)
  from assms(1,2) have empty: "map_octree s = {}"
    by (simp add: octree_inv_def)
  have "refineTransformAndGrowMap lib env stamp cloud raw_pose transform s =
           Inr (False, transform, addPointsToMap lib (map f cloud) s)"
    using bootstrap_result [OF assms(1), of lib env stamp cloud raw_pose transform] t by simp
  moreover have "map_octree (addPointsToMap lib (map f cloud) s) = voxel_of lib ` f ` set cloud"
    using empty by (simp add: addPointsToMap_octree)
  moreover have "map_cloud (addPointsToMap lib (map f cloud) s) = map f cloud"
    if "distinct (map (voxel_of lib) (map f cloud))"
    using addPointsToMap_fresh [OF that, of s] empty assms(1) by simp
  ultimately show ?thesis by simp
qed

lemma scan100_voxels:
  "map (voxel_of sample_pcl) (map shift_quarter scan100) = map (\<lambda>i. (2 * int i, 0, 0)) [0..<100]"
proof -
  have "\<lfloor>2 * (real i + 1 / 4)\<rfloor> = 2 * int i" for i :: nat
    by (simp add: floor_eq_iff)
  then show ?thesis
    by (simp add: scan100_def shift_quarter_def sample_pcl_def identity3_def)
qed

lemma scan100_distinct: "distinct (map (voxel_of sample_pcl) (map shift_quarter scan100))"
  unfolding scan100_voxels by (simp add: distinct_map inj_on_def)

theorem bootstrap_grows_map_witness:
  "map_cloud (new_OctreeMapper :: (Vector3, int \<times> int \<times> int) OctreeMapper) = [] \<and>
   octree_inv sample_pcl new_OctreeMapper \<and>
   transformPoint sample_pcl (toTFTransform raw_shift) = Some shift_quarter \<and>
   distinct (map (voxel_of sample_pcl) (map shift_quarter scan100)) \<and>
   length scan100 = 100 \<and>
   refineTransformAndGrowMap sample_pcl quiet_env 5 scan100 raw_shift identity_pose
       new_OctreeMapper =
     Inr (False, identity_pose,
          addPointsToMap sample_pcl (map shift_quarter scan100) new_OctreeMapper) \<and>
   length (map_cloud (addPointsToMap sample_pcl (map shift_quarter scan100) new_OctreeMapper))
     = 100"
proof -
  have h1: "map_cloud (new_OctreeMapper :: (Vector3, int \<times> int \<times> int) OctreeMapper) = []"
    by (simp add: new_OctreeMapper_def resetMap_def)
  have h2: "octree_inv sample_pcl new_OctreeMapper"
    by (simp add: new_OctreeMapper_def resetMap_def octree_inv_def)
  have h3: "transformPoint sample_pcl (toTFTransform raw_shift) = Some shift_quarter"
    by (simp add: sample_pcl_def sample_transformPoint_def toTFTransform_def raw_shift_def
        identity3_def shift_quarter_def fun_eq_iff)
  have h4: "length scan100 = 100"
    by (simp add: scan100_def)
  from bootstrap_grows_map [OF h1 h2 h3, of quiet_env 5 scan100 identity_pose]
    h1 h2 h3 h4 scan100_distinct
  show ?thesis by simp
qed

text \<open>
  C10. When the map is empty the transition returns false and the reference parameter
  \<open>transform\<close> holds after the call the value it held before.
\<close>

theorem bootstrap_keeps_transform:
  "map_cloud s = [] \<Longrightarrow>
     refineTransformAndGrowMap lib env stamp cloud raw_pose transform s =
       Inr (False, transform,
            addPointsToMap lib (transformCloudToPoseFrame lib cloud raw_pose []) s)"
  by (rule bootstrap_result)

theorem bootstrap_keeps_transform_witness:
  "map_cloud (new_OctreeMapper :: (Vector3, int \<times> int \<times> int) OctreeMapper) = [] \<and>
   refineTransformAndGrowMap sample_pcl busy_env 5 scan1 raw1 delta1 new_OctreeMapper =
     Inr (False, delta1,
          addPointsToMap sample_pcl (transformCloudToPoseFrame sample_pcl scan1 raw1 [])
            new_OctreeMapper)"
proof -
  have h: "map_cloud (new_OctreeMapper :: (Vector3, int \<times> int \<times> int) OctreeMapper) = []"
    by (simp add: new_OctreeMapper_def resetMap_def)
  from bootstrap_keeps_transform [OF h, of sample_pcl busy_env 5 scan1 raw1 delta1] h
  show ?thesis by simp
qed

text \<open>
  C7. The correspondence builder returns one entry per successful lookup (a result index
  that is not negative), in scan order: the map point at that index. So its output is no
  longer than the scan, and the boolean it returns is true exactly when the output is not
  empty. When no lookup succeeds the output is empty and the boolean false; the builder
  returns whenever every result index is below the size of the map cloud; and on a
  freshly reset map the only output is the empty cloud.
\<close>

theorem correspondences:
  "(approxNearestNeighbors lib s cloud = Inr (found, nn) \<longrightarrow>
      nn = map (\<lambda>p. map_cloud s ! nat (approxNearestSearch lib (map_octree s) (map_cloud s) p))
             (filter (\<lambda>p. 0 \<le> approxNearestSearch lib (map_octree s) (map_cloud s) p) cloud) \<and>
      length nn \<le> length cloud \<and> (found \<longleftrightarrow> nn \<noteq> [])) \<and>
   ((\<forall>p \<in> set cloud. approxNearestSearch lib (map_octree s) (map_cloud s) p < 0) \<longrightarrow>
      approxNearestNeighbors lib s cloud = Inr (False, [])) \<and>
   ((\<forall>p \<in> set cloud. approxNearestSearch lib (map_octree s) (map_cloud s) p
        < int (length (map_cloud s))) \<longrightarrow>
      (\<exists>found' nn'. approxNearestNeighbors lib s cloud = Inr (found', nn'))) \<and>
   (approxNearestNeighbors lib (resetMap s) cloud = Inr (found, nn) \<longrightarrow> nn = [] \<and> \<not> found)"
proof (intro conjI impI)
  assume a: "approxNearestNeighbors lib s cloud = Inr (found, nn)"
  then have loop: "nearest_neighbors_loop lib s cloud [] = Inr nn" and f: "found = (length nn > 0)"
    by (auto simp: approxNearestNeighbors_def split: sum.splits)
  from nearest_neighbors_loop_result [OF loop]
  show nn: "nn = map (\<lambda>p. map_cloud s ! nat (approxNearestSearch lib (map_octree s) (map_cloud s) p))
             (filter (\<lambda>p. 0 \<le> approxNearestSearch lib (map_octree s) (map_cloud s) p) cloud)"
    by simp
  have "length nn = length (filter (\<lambda>p. 0 \<le> approxNearestSearch lib (map_octree s) (map_cloud s) p) cloud)"
    by (subst nn) simp
  then show "length nn \<le> length cloud" by simp
  from f show "found \<longleftrightarrow> nn \<noteq> []" by simp
next
  assume "\<forall>p \<in> set cloud. approxNearestSearch lib (map_octree s) (map_cloud s) p < 0"
  then have "nearest_neighbors_loop lib s cloud [] = Inr []"
    by (rule nearest_neighbors_loop_none)
  then show "approxNearestNeighbors lib s cloud = Inr (False, [])"
    by (simp add: approxNearestNeighbors_def)
next
  assume "\<forall>p \<in> set cloud. approxNearestSearch lib (map_octree s) (map_cloud s) p
        < int (length (map_cloud s))"
  then obtain nn' where "nearest_neighbors_loop lib s cloud [] = Inr nn'"
    using nearest_neighbors_loop_returns by blast
  then show "\<exists>found' nn'. approxNearestNeighbors lib s cloud = Inr (found', nn')"
    by (simp add: approxNearestNeighbors_def)
next
  assume a: "approxNearestNeighbors lib (resetMap s) cloud = Inr (found, nn)"
  then have loop: "nearest_neighbors_loop lib (resetMap s) cloud [] = Inr nn"
    and f: "found = (length nn > 0)"
    by (auto simp: approxNearestNeighbors_def split: sum.splits)
  have "map_cloud (resetMap s) = []" by (simp add: resetMap_def)
  from nearest_neighbors_loop_empty_map [OF this loop] show "nn = []" .
  with f show "\<not> found" by simp
qed

theorem correspondences_witness:
  "approxNearestNeighbors sample_pcl tracking_mapper [(0, 1/10, 0), (9/10, 0, 0)] =
     Inr (True, [(0, 0, 0), (1, 0, 0)]) \<and>
   length [(0, 0, 0), (1, 0, 0) :: Vector3] \<le> length [(0, 1/10, 0), (9/10, 0, 0) :: Vector3] \<and>
   approxNearestSearch sample_pcl (map_octree tracking_mapper) (map_cloud tracking_mapper)
     (0, 1/10, 0) = 0 \<and>
   approxNearestSearch sample_pcl (map_octree tracking_mapper) (map_cloud tracking_mapper)
     (9/10, 0, 0) = 1 \<and>
   length (map_cloud tracking_mapper) = 2 \<and>
   approxNearestSearch sample_pcl (map_octree (resetMap tracking_mapper))
     (map_cloud (resetMap tracking_mapper)) (1/10, 1/4, 0) = - 1 \<and>
   approxNearestSearch sample_pcl (map_octree (resetMap tracking_mapper))
     (map_cloud (resetMap tracking_mapper)) (1/10, - 1/4, 0) = - 1 \<and>
   scan1 = [(1/10, 1/4, 0), (1/10, - 1/4, 0)] \<and>
   approxNearestNeighbors sample_pcl (resetMap tracking_mapper) scan1 = Inr (False, []) \<and>
   approxNearestNeighbors sample_pcl (resetMap (resetMap tracking_mapper)) scan1 =
     Inr (False, [])"
proof -
  have h1: "approxNearestNeighbors sample_pcl tracking_mapper [(0, 1/10, 0), (9/10, 0, 0)] =
      Inr (True, [(0, 0, 0), (1, 0, 0)])"
    by (simp add: sample_defs)
  have h2: "\<forall>p \<in> set [(0, 1/10, 0), (9/10, 0, 0)].
      approxNearestSearch sample_pcl (map_octree tracking_mapper) (map_cloud tracking_mapper) p
        < int (length (map_cloud tracking_mapper))"
    by (simp add: sample_defs)
  have h3: "\<forall>p \<in> set scan1.
      approxNearestSearch sample_pcl (map_octree (resetMap tracking_mapper))
        (map_cloud (resetMap tracking_mapper)) p < 0"
    by (simp add: sample_defs)
  have h4: "approxNearestNeighbors sample_pcl (resetMap (resetMap tracking_mapper)) scan1 =
      Inr (False, [])"
    by (simp add: sample_defs)
  from correspondences [of sample_pcl tracking_mapper "[(0, 1/10, 0), (9/10, 0, 0)]" True
      "[(0, 0, 0), (1, 0, 0)]"]
    correspondences [of sample_pcl "resetMap tracking_mapper" scan1 False "[]"]
    h1 h2 h3 h4
  show ?thesis by (simp add: sample_defs)
qed

text \<open>
  C9. Every point of the partner cloud that the correspondence builder returns is a point
  of the map cloud at the time of the query.
\<close>

theorem partners_in_map:
  "approxNearestNeighbors lib s cloud = Inr (found, nn) \<Longrightarrow> set nn \<subseteq> set (map_cloud s)"
proof -
  assume "approxNearestNeighbors lib s cloud = Inr (found, nn)"
  then have "nearest_neighbors_loop lib s cloud [] = Inr nn"
    by (auto simp: approxNearestNeighbors_def split: sum.splits)
  from nearest_neighbors_loop_in_map [OF this] show ?thesis by simp
qed

theorem partners_in_map_witness:
  "approxNearestNeighbors sample_pcl tracking_mapper [(0, 1/10, 0), (9/10, 0, 0), (2, 0, 0)] =
     Inr (True, [(0, 0, 0), (1, 0, 0), (1, 0, 0)]) \<and>
   set [(0, 0, 0), (1, 0, 0), (1, 0, 0)] \<subseteq> set (map_cloud tracking_mapper)"
proof -
  have h: "approxNearestNeighbors sample_pcl tracking_mapper
      [(0, 1/10, 0), (9/10, 0, 0), (2, 0, 0)] = Inr (True, [(0, 0, 0), (1, 0, 0), (1, 0, 0)])"
    by (simp add: sample_defs)
  from partners_in_map [OF h] h show ?thesis by simp
qed

text \<open>
  C2. In the tracking state (the map is not empty), when the registration of the scan
  against its correspondence cloud does not converge, the transition returns false and the
  map cloud, the octree and the refined path are as they were before the call: no point
  of the scan is inserted.
\<close>

theorem no_growth_without_convergence:
  assumes "map_cloud s \<noteq> []"
    and "approxNearestNeighbors lib s (transformCloudToPoseFrame lib cloud raw_pose []) =
           Inr (found, nn_cloud_in_map)"
    and "\<not> hasConverged (gicp_align lib cloud
           (transformCloudToPoseFrame lib nn_cloud_in_map (inverse_pose raw_pose) []))"
  shows "\<exists>s'. refineTransformAndGrowMap lib env stamp cloud raw_pose transform s =
                 Inr (False, transform, s') \<and>
              map_cloud s' = map_cloud s \<and> map_octree s' = map_octree s \<and>
              refined_path s' = refined_path s"
  using assms by (rule tracking_not_converged)

theorem no_growth_without_convergence_witness:
  "map_cloud tracking_mapper \<noteq> [] \<and>
   approxNearestNeighbors sample_pcl tracking_mapper
       (transformCloudToPoseFrame sample_pcl scan2 raw1 []) = Inr (True, [(0, 0, 0)]) \<and>
   \<not> hasConverged (gicp_align sample_pcl scan2
       (transformCloudToPoseFrame sample_pcl [(0, 0, 0)] (inverse_pose raw1) [])) \<and>
   (\<exists>s'. refineTransformAndGrowMap sample_pcl busy_env 5 scan2 raw1 identity_pose
             tracking_mapper = Inr (False, identity_pose, s') \<and>
          map_cloud s' = [(0, 0, 0), (1, 0, 0)])"
proof -
  have h1: "map_cloud tracking_mapper \<noteq> []"
    by (simp add: tracking_mapper_def)
  have h2: "approxNearestNeighbors sample_pcl tracking_mapper
       (transformCloudToPoseFrame sample_pcl scan2 raw1 []) = Inr (True, [(0, 0, 0)])"
    by (simp add: sample_defs)
  have h3: "\<not> hasConverged (gicp_align sample_pcl scan2
       (transformCloudToPoseFrame sample_pcl [(0, 0, 0)] (inverse_pose raw1) []))"
    by (simp add: sample_defs)
  have m: "map_cloud tracking_mapper = [(0, 0, 0), (1, 0, 0)]"
    by (simp add: tracking_mapper_def)
  from no_growth_without_convergence [OF h1 h2 h3, of busy_env 5 identity_pose] h1 h2 h3 m
  show ?thesis by auto
qed

text \<open>
  C1. In the tracking state, when the registration converges with final matrix \<open>T\<close>, the
  refined pose is the composition of the raw pose and the correction: rotation
  \<open>raw.R T.R\<close> and translation \<open>raw.t + raw.R T.t\<close>. The scan moved by this pose is what
  goes into the map, and this pose is what the refined path receives. It is not the
  field-wise sum: under a raw pose with the identity rotation the two differ for every
  correction.
\<close>

theorem refined_pose_is_composition:
  assumes "map_cloud s \<noteq> []"
    and "approxNearestNeighbors lib s (transformCloudToPoseFrame lib cloud raw_pose []) =
           Inr (found, nn_cloud_in_map)"
    and "gicp_align lib cloud
           (transformCloudToPoseFrame lib nn_cloud_in_map (inverse_pose raw_pose) []) = icp"
    and "hasConverged icp"
    and "refined_pose =
           \<lparr>pos = vadd (pos raw_pose) (mat_vec (rot raw_pose) (column4 (getFinalTransformation icp))),
            rot = mat_mul (rot raw_pose) (block3 (getFinalTransformation icp))\<rparr>"
  shows "\<exists>s'. refineTransformAndGrowMap lib env stamp cloud raw_pose transform s =
                 Inr (True, Pose6DOF_of_matrix (getFinalTransformation icp), s') \<and>
              map_cloud s' =
                map_cloud (addPointsToMap lib
                  (transformCloudToPoseFrame lib cloud refined_pose
                     (transformCloudToPoseFrame lib cloud raw_pose [])) s) \<and>
              (refined_path_subscribers env > 0 \<longrightarrow>
                 poses (refined_path s') =
                   poses (refined_path s) @ [(refined_pose, now env (Suc (clock_reads s)))]) \<and>
              (rot raw_pose = identity3 \<longrightarrow>
                 refined_pose \<noteq>
                   fieldwise_add raw_pose (Pose6DOF_of_matrix (getFinalTransformation icp)))"
proof -
  let ?delta = "Pose6DOF_of_matrix (getFinalTransformation icp)"
  have plus: "pose_plus raw_pose ?delta = refined_pose"
    by (simp add: assms(5) pose_plus_def compose_def Pose6DOF_of_matrix_def)
  have differs: "refined_pose \<noteq> fieldwise_add raw_pose ?delta" if "rot raw_pose = identity3"
  proof
    assume "refined_pose = fieldwise_add raw_pose ?delta"
    then have "rot refined_pose = rot (fieldwise_add raw_pose ?delta)" by simp
    then show False
      using that
      by (cases "block3 (getFinalTransformation icp)")
        (auto simp: assms(5) fieldwise_add_def Pose6DOF_of_matrix_def identity3_def)
  qed
  from assms(3,4) have conv: "hasConverged (gicp_align lib cloud
           (transformCloudToPoseFrame lib nn_cloud_in_map (inverse_pose raw_pose) []))"
    by simp
  from assms(3) have d: "?delta = Pose6DOF_of_matrix (getFinalTransformation (gicp_align lib cloud
           (transformCloudToPoseFrame lib nn_cloud_in_map (inverse_pose raw_pose) [])))"
    by simp
  from tracking_converged [OF assms(1,2) conv d, of env stamp transform] plus differs
  show ?thesis by auto
qed

theorem refined_pose_is_composition_witness:
  "map_cloud tracking_mapper \<noteq> [] \<and>
   approxNearestNeighbors sample_pcl tracking_mapper
       (transformCloudToPoseFrame sample_pcl scan1 raw1 []) =
     Inr (True, [(0, 0, 0), (0, 0, 0)]) \<and>
   hasConverged (gicp_align sample_pcl scan1
       (transformCloudToPoseFrame sample_pcl [(0, 0, 0), (0, 0, 0)] (inverse_pose raw1) [])) \<and>
   0 < refined_path_subscribers busy_env \<and>
   (\<exists>s'. refineTransformAndGrowMap sample_pcl busy_env 5 scan1 raw1 identity_pose
             tracking_mapper = Inr (True, delta1, s') \<and>
          map_cloud s' = [(0, 0, 0), (1, 0, 0), (1/2, 0, 0)] \<and>
          poses (refined_path s') = [(\<lparr>pos = (1/4, - 1/10, 0), rot = rot90z\<rparr>, 101)]) \<and>
   approxNearestNeighbors sample_pcl tracking_mapper
       (transformCloudToPoseFrame sample_pcl scan3 identity_pose []) = Inr (True, [(0, 0, 0)]) \<and>
   hasConverged (gicp_align sample_pcl scan3
       (transformCloudToPoseFrame sample_pcl [(0, 0, 0)] (inverse_pose identity_pose) [])) \<and>
   rot identity_pose = identity3 \<and>
   \<lparr>pos = (- 1/10, 0, 0), rot = identity3\<rparr> \<noteq> fieldwise_add identity_pose delta1"
proof -
  let ?icp1 = "gicp_align sample_pcl scan1
       (transformCloudToPoseFrame sample_pcl [(0, 0, 0), (0, 0, 0)] (inverse_pose raw1) [])"
  let ?icp3 = "gicp_align sample_pcl scan3
       (transformCloudToPoseFrame sample_pcl [(0, 0, 0)] (inverse_pose identity_pose) [])"
  have h1: "map_cloud tracking_mapper \<noteq> []"
    by (simp add: tracking_mapper_def)
  have h2: "approxNearestNeighbors sample_pcl tracking_mapper
       (transformCloudToPoseFrame sample_pcl scan1 raw1 []) =
     Inr (True, [(0, 0, 0), (0, 0, 0)])"
    by (simp add: sample_defs)
  have h3: "hasConverged ?icp1"
    by (simp add: sample_defs)
  have d1: "Pose6DOF_of_matrix (getFinalTransformation ?icp1) = delta1"
    by (simp add: sample_defs)
  have r1: "\<lparr>pos = (1/4, - 1/10, 0), rot = rot90z\<rparr> =
      \<lparr>pos = vadd (pos raw1) (mat_vec (rot raw1) (column4 (getFinalTransformation ?icp1))),
       rot = mat_mul (rot raw1) (block3 (getFinalTransformation ?icp1))\<rparr>"
    by (simp add: sample_defs)
  have g1: "map_cloud (addPointsToMap sample_pcl
      (transformCloudToPoseFrame sample_pcl scan1 \<lparr>pos = (1/4, - 1/10, 0), rot = rot90z\<rparr>
         (transformCloudToPoseFrame sample_pcl scan1 raw1 [])) tracking_mapper) =
      [(0, 0, 0), (1, 0, 0), (1/2, 0, 0)]"
    by (simp add: sample_defs)
  have e: "0 < refined_path_subscribers busy_env" "now busy_env (Suc (clock_reads tracking_mapper)) = 101"
    "poses (refined_path tracking_mapper) = []"
    by (simp_all add: busy_env_def tracking_mapper_def)
  have k2: "approxNearestNeighbors sample_pcl tracking_mapper
       (transformCloudToPoseFrame sample_pcl scan3 identity_pose []) = Inr (True, [(0, 0, 0)])"
    by (simp add: sample_defs)
  have k3: "hasConverged ?icp3"
    by (simp add: sample_defs)
  have d3: "Pose6DOF_of_matrix (getFinalTransformation ?icp3) = delta1"
    by (simp add: sample_defs)
  have r3: "\<lparr>pos = (- 1/10, 0, 0), rot = identity3\<rparr> =
      \<lparr>pos = vadd (pos identity_pose)
               (mat_vec (rot identity_pose) (column4 (getFinalTransformation ?icp3))),
       rot = mat_mul (rot identity_pose) (block3 (getFinalTransformation ?icp3))\<rparr>"
    by (simp add: sample_defs)
  have k4: "rot identity_pose = identity3"
    by (simp add: identity_pose_def)
  from refined_pose_is_composition [OF h1 h2 refl h3 r1, of busy_env 5 identity_pose]
    refined_pose_is_composition [OF h1 k2 refl k3 r3, of quiet_env 5 identity_pose]
    h1 h2 h3 d1 g1 e k2 k3 d3 k4
  show ?thesis by auto
qed

text \<open>
  C6, as stated: the refined path grows by one entry every time the transition returns
  true. It does not: \<open>publishPath\<close>, which alone appends to the path, is called only when
  the path's publisher has a subscriber. With no subscriber, \<open>scan1\<close> under \<open>raw1\<close> is
  refined with success, the map grows, and the path is as before.
\<close>

theorem refined_path_counterexample:
  "refineTransformAndGrowMap sample_pcl quiet_env 5 scan1 raw1 identity_pose tracking_mapper =
     Inr (True, delta1, grown_mapper) \<and>
   poses (refined_path grown_mapper) = poses (refined_path tracking_mapper) \<and>
   length (poses (refined_path grown_mapper)) \<noteq>
     length (poses (refined_path tracking_mapper)) + 1"
  by (simp add: sample_defs insert_commute)

text \<open>
  C6, amended: the refined path only grows at its end, and by exactly one entry, the
  refined pose with the clock's reading, on every call of the transition that returns
  true while the path's publisher has a subscriber; on every other call that returns, the
  path's entries are as before.
\<close>

theorem refined_path_growth:
  assumes "refineTransformAndGrowMap lib env stamp cloud raw_pose transform s =
             Inr (ok, transform', s')"
  shows "poses (refined_path s') =
           (if ok \<and> 0 < refined_path_subscribers env
            then poses (refined_path s) @
                   [(pose_plus raw_pose transform', now env (Suc (clock_reads s)))]
            else poses (refined_path s))"
proof (cases "map_cloud s = []")
  case True
  from bootstrap_result [OF True, of lib env stamp cloud raw_pose transform] assms
  show ?thesis by (auto simp: addPointsToMap_frame)
next
  case False
  let ?cim = "transformCloudToPoseFrame lib cloud raw_pose []"
  show ?thesis
  proof (cases "approxNearestNeighbors lib s ?cim")
    case (Inl e)
    from tracking_fault [OF False Inl, of env stamp transform] assms show ?thesis by simp
  next
    case (Inr r)
    then obtain found nn where nn: "approxNearestNeighbors lib s ?cim = Inr (found, nn)"
      by (cases r) simp
    let ?icp = "gicp_align lib cloud (transformCloudToPoseFrame lib nn (inverse_pose raw_pose) [])"
    show ?thesis
    proof (cases "hasConverged ?icp")
      case True
      from tracking_converged [OF False nn True refl, of env stamp transform] assms
      show ?thesis by auto
    next
      case no: False
      from tracking_not_converged [OF False nn no, of env stamp transform] assms
      show ?thesis by auto
    qed
  qed
qed

theorem refined_path_growth_witness:
  "refineTransformAndGrowMap sample_pcl busy_env 5 scan1 raw1 identity_pose tracking_mapper =
     Inr (True, delta1,
          snd (snd (projr (refineTransformAndGrowMap sample_pcl busy_env 5 scan1 raw1
                             identity_pose tracking_mapper)))) \<and>
   0 < refined_path_subscribers busy_env \<and>
   poses (refined_path
            (snd (snd (projr (refineTransformAndGrowMap sample_pcl busy_env 5 scan1 raw1
                                identity_pose tracking_mapper))))) =
     poses (refined_path tracking_mapper) @ [(pose_plus raw1 delta1, 101)]"
proof -
  let ?r = "refineTransformAndGrowMap sample_pcl busy_env 5 scan1 raw1 identity_pose
              tracking_mapper"
  have h: "?r = Inr (True, delta1, snd (snd (projr ?r)))"
    by (simp add: sample_defs)
  have e: "0 < refined_path_subscribers busy_env"
    "now busy_env (Suc (clock_reads tracking_mapper)) = 101"
    by (simp_all add: busy_env_def tracking_mapper_def)
  from refined_path_growth [OF h] h e show ?thesis by simp
qed

text \<open>
  C5, as stated: on a malformed transform the transform operation returns the original
  cloud and reports the failure to its caller. It does neither: the handler of the
  library's exception is empty, so the output cloud keeps what it held before the call
  (here nothing, not the input cloud), and the result is the one of a successful call on
  an empty cloud.
\<close>

theorem malformed_transform_counterexample:
  "transformPoint sample_pcl (toTFTransform bad_pose) = None \<and>
   transformCloudToPoseFrame sample_pcl [(1, 2, 3)] bad_pose [] = [] \<and>
   transformCloudToPoseFrame sample_pcl [(1, 2, 3)] bad_pose [] \<noteq> [(1, 2, 3)] \<and>
   transformCloudToPoseFrame sample_pcl [(1, 2, 3)] bad_pose [] =
     transformCloudToPoseFrame sample_pcl [] identity_pose []"
  by (simp add: sample_defs)

text \<open>
  C5, amended: when the library throws on the transform of the pose, the transform
  operation does not crash: it leaves the output cloud as it was before the call and
  returns nothing else, so the failure is not reported; the growth transition on an empty
  map then goes on as for an empty scan.
\<close>

theorem malformed_transform_swallowed:
  assumes "transformPoint lib (toTFTransform pose) = None"
  shows "transformCloudToPoseFrame lib in_cloud pose out_cloud = out_cloud \<and>
         (map_cloud s = [] \<longrightarrow>
            refineTransformAndGrowMap lib env stamp in_cloud pose transform s =
              Inr (False, transform, s))"
proof -
  have t: "transformCloudToPoseFrame lib c pose out = out" for c out
    using assms by (simp add: transformCloudToPoseFrame_def)
  have "refineTransformAndGrowMap lib env stamp in_cloud pose transform s =
      Inr (False, transform, s)" if "map_cloud s = []"
    using bootstrap_result [OF that, of lib env stamp in_cloud pose transform] t by simp
  with t show ?thesis by simp
qed

theorem malformed_transform_swallowed_witness:
  "transformPoint sample_pcl (toTFTransform bad_pose) = None \<and>
   transformCloudToPoseFrame sample_pcl [(1, 2, 3)] bad_pose [(4, 5, 6)] = [(4, 5, 6)] \<and>
   map_cloud (new_OctreeMapper :: (Vector3, int \<times> int \<times> int) OctreeMapper) = [] \<and>
   refineTransformAndGrowMap sample_pcl quiet_env 5 [(1, 2, 3)] bad_pose identity_pose
       new_OctreeMapper =
     Inr (False, identity_pose, new_OctreeMapper)"
proof -
  have h: "transformPoint sample_pcl (toTFTransform bad_pose) = None"
    by (simp add: sample_defs)
  have m: "map_cloud (new_OctreeMapper :: (Vector3, int \<times> int \<times> int) OctreeMapper) = []"
    by (simp add: new_OctreeMapper_def resetMap_def)
  from malformed_transform_swallowed [OF h, of "[(1, 2, 3)]" "[(4, 5, 6)]" new_OctreeMapper
      quiet_env 5 identity_pose] h m
  show ?thesis by simp
qed

end
